theory Spec2Isabelle
  imports Main
begin

section \<open>Exceptions\<close>

text \<open>
  The exceptions that can travel through \<open>base.py\<close>. \<open>BackendError\<close> stands for any
  other subclass of \<open>Exception\<close> a platform backend raises (a D-Bus error, an OS error).
  \<open>KeyboardInterrupt\<close>, \<open>SystemExit\<close> and \<open>GeneratorExit\<close> derive from \<open>BaseException\<close>
  only, so a clause \<open>except Exception\<close> does not catch them.
\<close>

datatype exc =
    IndexError
  | ValueError
  | KeyError
  | NotImplementedError
  | BackendError string
  | KeyboardInterrupt
  | SystemExit
  | GeneratorExit

fun is_Exception :: "exc \<Rightarrow> bool" where
  "is_Exception KeyboardInterrupt = False"
| "is_Exception SystemExit = False"
| "is_Exception GeneratorExit = False"
| "is_Exception IndexError = True"
| "is_Exception ValueError = True"
| "is_Exception KeyError = True"
| "is_Exception NotImplementedError = True"
| "is_Exception (BackendError msg) = True"

section \<open>Notification model\<close>

datatype Urgency = Critical | Normal | Low

text \<open>Callbacks are opaque to the base module: it stores them and never calls them.\<close>

type_synonym callback = nat

datatype Button = Button string "callback option"

datatype ReplyField = ReplyField string string "callback option"

definition DEFAULT_SOUND :: string where
  "DEFAULT_SOUND = ''default''"

record Notification =
  "identifier" :: string
  winrt_identifier :: string
  macos_identifier :: string
  dbus_identifier :: int
  title :: string
  message :: string
  urgency :: Urgency
  icon :: "string option"
  buttons :: "Button list"
  reply_field :: "ReplyField option"
  on_clicked :: "callback option"
  on_dismissed :: "callback option"
  attachment :: "string option"
  sound_file :: "string option"
  thread :: "string option"
  timeout :: int

datatype warning_category = DeprecationWarning

type_synonym warning = "warning_category \<times> string"

text \<open>
  \<open>Notification.__init__\<close>, with every keyword argument passed explicitly. The defaults of
  the source are \<open>urgency = Normal\<close>, \<open>buttons = []\<close>, \<open>sound = False\<close>, \<open>timeout = -1\<close>
  and \<open>None\<close> for the rest. The result is the list of warnings issued through
  \<open>warnings.warn\<close> and the object built.
\<close>

definition Notification_init ::
  "string \<Rightarrow> string \<Rightarrow> Urgency \<Rightarrow> string option \<Rightarrow> Button list \<Rightarrow> ReplyField option \<Rightarrow>
   callback option \<Rightarrow> callback option \<Rightarrow> string option \<Rightarrow> bool \<Rightarrow> string option \<Rightarrow> int \<Rightarrow>
   string option \<Rightarrow> warning list \<times> Notification" where
  "Notification_init title_arg message_arg urgency_arg icon_arg buttons_arg reply_field_arg
     on_clicked_arg on_dismissed_arg attachment_arg sound thread_arg timeout_arg sound_file_arg =
   (let (ws, sf) =
          (if sound
           then ([(DeprecationWarning, ''Use sound_file=DEFAULT_SOUND instead of sound=True.'')],
                 Some DEFAULT_SOUND)
           else ([], sound_file_arg))
    in (ws,
        \<lparr> identifier = '''',
          winrt_identifier = '''',
          macos_identifier = '''',
          dbus_identifier = 0,
          title = title_arg,
          message = message_arg,
          urgency = urgency_arg,
          icon = icon_arg,
          buttons = buttons_arg,
          reply_field = reply_field_arg,
          on_clicked = on_clicked_arg,
          on_dismissed = on_dismissed_arg,
          attachment = attachment_arg,
          sound_file = sf,
          thread = thread_arg,
          timeout = timeout_arg \<rparr>))"

section \<open>The bounded deque of the standard library\<close>

text \<open>
  \<open>collections.deque(iterable, maxlen)\<close>. Notifications are objects compared by identity
  (the class defines no \<open>__eq__\<close>), so the deque holds references.
\<close>

type_synonym ref = nat

record deque =
  maxlen :: "nat option"
  items :: "ref list"

definition deque_init :: "int option \<Rightarrow> exc + deque" where
  "deque_init ml =
     (case ml of
        None \<Rightarrow> Inr \<lparr> maxlen = None, items = [] \<rparr>
      | Some k \<Rightarrow> if k < 0 then Inl ValueError else Inr \<lparr> maxlen = Some (nat k), items = [] \<rparr>)"

definition deque_popleft :: "deque \<Rightarrow> exc + (ref \<times> deque)" where
  "deque_popleft d =
     (case items d of
        [] \<Rightarrow> Inl IndexError
      | x # xs \<Rightarrow> Inr (x, d\<lparr>items := xs\<rparr>))"

text \<open>A full bounded deque discards from the opposite end when an item is added.\<close>

definition deque_append :: "ref \<Rightarrow> deque \<Rightarrow> deque" where
  "deque_append x d =
     (let ys = items d @ [x]
      in d\<lparr>items := (case maxlen d of
                        None \<Rightarrow> ys
                      | Some m \<Rightarrow> if m < length ys then tl ys else ys)\<rparr>)"

definition deque_appendleft :: "ref \<Rightarrow> deque \<Rightarrow> deque" where
  "deque_appendleft x d =
     (let ys = x # items d
      in d\<lparr>items := (case maxlen d of
                        None \<Rightarrow> ys
                      | Some m \<Rightarrow> if m < length ys then butlast ys else ys)\<rparr>)"

text \<open>\<open>deque.remove\<close> deletes the first occurrence and raises \<open>ValueError\<close> when there is none.\<close>

definition deque_remove :: "ref \<Rightarrow> deque \<Rightarrow> exc + deque" where
  "deque_remove x d =
     (if x \<in> set (items d) then Inr (d\<lparr>items := remove1 x (items d)\<rparr>) else Inl ValueError)"

definition deque_clear :: "deque \<Rightarrow> deque" where
  "deque_clear d = d\<lparr>items := []\<rparr>"

text \<open>\<open>dict.pop(key)\<close> without a default raises \<open>KeyError\<close> on a missing key.\<close>

definition dict_pop :: "'k \<Rightarrow> ('k \<rightharpoonup> 'v) \<Rightarrow> exc + ('v \<times> ('k \<rightharpoonup> 'v))" where
  "dict_pop k m =
     (case m k of
        None \<Rightarrow> Inl KeyError
      | Some v \<Rightarrow> Inr (v, m(k := None)))"

text \<open>The representation invariant of a deque: it never holds more than \<open>maxlen\<close> items.\<close>

definition deque_ok :: "deque \<Rightarrow> bool" where
  "deque_ok d = (case maxlen d of None \<Rightarrow> True | Some m \<Rightarrow> length (items d) \<le> m)"

section \<open>The notifier and its environment\<close>

datatype log_level = WARNING

datatype log_record = Log log_level string "exc option"

datatype backend_call =
    Call_send ref "ref option"
  | Call_clear ref
  | Call_clear_all

text \<open>
  The state a call of the notifier reads and writes: the four attributes of
  \<open>DesktopNotifierBase\<close> (\<open>_current_notifications\<close> and \<open>_notification_for_nid\<close> without
  their leading underscore, which Isabelle does not allow), the notification objects the
  references point to, the records written to the module's logger, and the calls made to
  the backend primitives.
\<close>

record state =
  app_name :: string
  notification_limit :: "int option"
  current_notifications_deque :: deque
  notification_for_nid :: "string \<rightharpoonup> ref"
  heap :: "ref \<Rightarrow> Notification"
  logged :: "log_record list"
  backend_calls :: "backend_call list"

text \<open>
  \<open>DesktopNotifierBase.__init__\<close>. The first argument is \<open>None\<close> when the caller leaves
  \<open>app_name\<close> out; \<open>notification_limit\<close> left out is the same as \<open>None\<close>. The third
  argument is the heap the notifier is created in.
\<close>

definition DesktopNotifierBase_init ::
  "string option \<Rightarrow> int option \<Rightarrow> (ref \<Rightarrow> Notification) \<Rightarrow> exc + state" where
  "DesktopNotifierBase_init app_name_arg notification_limit_arg h =
     (case deque_init notification_limit_arg of
        Inl e \<Rightarrow> Inl e
      | Inr d \<Rightarrow>
          Inr \<lparr> app_name = (case app_name_arg of None \<Rightarrow> ''Python'' | Some a \<Rightarrow> a),
                notification_limit = notification_limit_arg,
                current_notifications_deque = d,
                notification_for_nid = Map.empty,
                heap = h,
                logged = [],
                backend_calls = [] \<rparr>)"

text \<open>The property \<open>current_notifications\<close>: a list copy of the deque.\<close>

definition current_notifications :: "state \<Rightarrow> ref list" where
  "current_notifications s = items (current_notifications_deque s)"

text \<open>The setter of \<open>Notification.identifier\<close>, on the object a reference points to.\<close>

definition set_identifier :: "ref \<Rightarrow> string \<Rightarrow> state \<Rightarrow> state" where
  "set_identifier n nid s = s\<lparr>heap := (heap s)(n := (heap s n)\<lparr>identifier := nid\<rparr>)\<rparr>"

subsection \<open>The backend primitives\<close>

text \<open>
  Modelled from the spec: the primitives \<open>_send\<close>, \<open>_clear\<close> and \<open>_clear_all\<close>, which
  \<open>base.py\<close> only declares (each body is \<open>raise NotImplementedError()\<close>) and platform
  subclasses implement. Following the backend contract of the spec
  (\<open>deliver(new, evicted) -> identifier | raises\<close>, \<open>dismiss\<close> and \<open>dismiss_all\<close> raise on
  failure), what a primitive does when it is called is given as an outcome: \<open>_send\<close>
  either raises, or returns after leaving the identifier of the new notification alone
  (\<open>Send_ok None\<close>) or assigning it (\<open>Send_ok (Some nid)\<close>); the dismiss primitives
  either raise or return.
\<close>

datatype send_outcome = Send_ok "string option" | Send_raises exc

datatype clear_outcome = Clear_ok | Clear_raises exc

fun is_Send_ok :: "send_outcome \<Rightarrow> bool" where
  "is_Send_ok (Send_ok a) = True"
| "is_Send_ok (Send_raises e) = False"

subsection \<open>send\<close>

text \<open>
  The \<open>try\<close> statement of \<open>send\<close>: the call of \<open>_send\<close> with the notification to replace,
  the handler \<open>except Exception\<close> and the \<open>else\<close> branch. The test
  \<open>if notification_to_replace:\<close> of the handler is true for every notification object
  (the class defines neither \<open>__bool__\<close> nor \<open>__len__\<close>) and false for \<open>None\<close>.
\<close>

definition send_try :: "send_outcome \<Rightarrow> ref \<Rightarrow> ref option \<Rightarrow> state \<Rightarrow> (exc + unit) \<times> state" where
  "send_try outcome n notification_to_replace s =
     (let s1 = s\<lparr>backend_calls := backend_calls s @ [Call_send n notification_to_replace]\<rparr>
      in case outcome of
           Send_raises e \<Rightarrow>
             if is_Exception e then
               (let s2 = (case notification_to_replace of
                            Some r \<Rightarrow> s1\<lparr>current_notifications_deque :=
                                           deque_appendleft r (current_notifications_deque s1)\<rparr>
                          | None \<Rightarrow> s1)
                in (Inr (), s2\<lparr>logged := logged s2 @ [Log WARNING ''Notification failed'' (Some e)]\<rparr>))
             else (Inl e, s1)
         | Send_ok a \<Rightarrow>
             (let s2 = (case a of None \<Rightarrow> s1 | Some nid \<Rightarrow> set_identifier n nid s1);
                  s3 = s2\<lparr>current_notifications_deque :=
                             deque_append n (current_notifications_deque s2)\<rparr>
              in (Inr (), s3\<lparr>notification_for_nid :=
                               (notification_for_nid s3)(identifier (heap s3 n) \<mapsto> n)\<rparr>)))"

definition send :: "send_outcome \<Rightarrow> ref \<Rightarrow> state \<Rightarrow> (exc + unit) \<times> state" where
  "send outcome n s =
     (if Some (int (length (items (current_notifications_deque s)))) = notification_limit s then
        (case deque_popleft (current_notifications_deque s) of
           Inl e \<Rightarrow> (Inl e, s)
         | Inr (r, d) \<Rightarrow> send_try outcome n (Some r) (s\<lparr>current_notifications_deque := d\<rparr>))
      else send_try outcome n None s)"

subsection \<open>Forgetting, clear and clear_all\<close>

text \<open>
  \<open>_clear_notification_from_cache\<close>: both \<open>try\<close> statements catch one exception class
  and pass; any other exception would leave the method.
\<close>

definition clear_notification_from_cache :: "ref \<Rightarrow> state \<Rightarrow> (exc + unit) \<times> state" where
  "clear_notification_from_cache n s =
     (case (case deque_remove n (current_notifications_deque s) of
              Inr d \<Rightarrow> Inr (s\<lparr>current_notifications_deque := d\<rparr>)
            | Inl e \<Rightarrow> if e = ValueError then Inr s else Inl e) of
        Inl e \<Rightarrow> (Inl e, s)
      | Inr s1 \<Rightarrow>
          if identifier (heap s1 n) \<noteq> '''' then
            (case dict_pop (identifier (heap s1 n)) (notification_for_nid s1) of
               Inr (v, m) \<Rightarrow> (Inr (), s1\<lparr>notification_for_nid := m\<rparr>)
             | Inl e \<Rightarrow> if e = KeyError then (Inr (), s1) else (Inl e, s1))
          else (Inr (), s1))"

definition clear :: "clear_outcome \<Rightarrow> ref \<Rightarrow> state \<Rightarrow> (exc + unit) \<times> state" where
  "clear outcome n s =
     (if identifier (heap s n) \<noteq> '''' then
        (let s1 = s\<lparr>backend_calls := backend_calls s @ [Call_clear n]\<rparr>
         in case outcome of
              Clear_raises e \<Rightarrow> (Inl e, s1)
            | Clear_ok \<Rightarrow> clear_notification_from_cache n s1)
      else clear_notification_from_cache n s)"

definition clear_all :: "clear_outcome \<Rightarrow> state \<Rightarrow> (exc + unit) \<times> state" where
  "clear_all outcome s =
     (let s1 = s\<lparr>backend_calls := backend_calls s @ [Call_clear_all]\<rparr>
      in case outcome of
           Clear_raises e \<Rightarrow> (Inl e, s1)
         | Clear_ok \<Rightarrow>
             (Inr (), s1\<lparr>current_notifications_deque := deque_clear (current_notifications_deque s1),
                         notification_for_nid := Map.empty\<rparr>))"

subsection \<open>Sequences of send calls\<close>

text \<open>
  A caller issuing one \<open>send\<close> after the other, each with the notification sent and what
  the backend does for it; the caller goes on whatever a call returns or raises.
\<close>

fun sends :: "(ref \<times> send_outcome) list \<Rightarrow> state \<Rightarrow> state" where
  "sends [] s = s"
| "sends ((n, outcome) # rest) s = sends rest (snd (send outcome n s))"

text \<open>The notifications of a sequence of calls whose delivery succeeds, in call order.\<close>

definition delivered :: "(ref \<times> send_outcome) list \<Rightarrow> ref list" where
  "delivered calls = map fst (filter (\<lambda>c. is_Send_ok (snd c)) calls)"

text \<open>A heap of freshly constructed notifications, for evaluating the model.\<close>

definition fresh_heap :: "ref \<Rightarrow> Notification" where
  "fresh_heap = (\<lambda>r. snd (Notification_init ''title'' ''message'' Normal None [] None None None
                               None False None (- 1) None))"

subsection \<open>Example states\<close>

text \<open>
  The notifier constructed with the default \<open>app_name\<close> and the given limit in a heap of
  fresh notifications. Construction succeeds for every limit that is not negative; the
  definition is used at such limits only.
\<close>

definition started :: "int option \<Rightarrow> state" where
  "started lim = projr (DesktopNotifierBase_init None lim fresh_heap)"

text \<open>Limit 1, notification 0 delivered under the identifier \<open>a\<close>.\<close>

definition one_shown :: state where
  "one_shown = sends [(0, Send_ok (Some ''a''))] (started (Some 1))"

text \<open>No limit, notification 0 delivered twice.\<close>

definition shown_twice :: state where
  "shown_twice = sends [(0, Send_ok (Some ''a'')), (0, Send_ok (Some ''a''))] (started None)"

text \<open>Limit 1, notification 0 delivered as \<open>a\<close>, then notification 1 delivered as \<open>b\<close>.\<close>

definition evicted_one :: state where
  "evicted_one = sends [(0, Send_ok (Some ''a'')), (1, Send_ok (Some ''b''))] (started (Some 1))"

section \<open>Basic facts\<close>

lemmas notifier_defs =
  send_def send_try_def clear_def clear_all_def clear_notification_from_cache_def
  current_notifications_def set_identifier_def
  deque_popleft_def deque_append_def deque_appendleft_def deque_remove_def deque_clear_def
  dict_pop_def

lemmas init_defs =
  started_def DesktopNotifierBase_init_def deque_init_def fresh_heap_def Notification_init_def

subsection \<open>The deque invariant holds in every state the notifier reaches\<close>

lemma deque_ok_init:
  "DesktopNotifierBase_init a lim h = Inr s \<Longrightarrow> deque_ok (current_notifications_deque s)"
  by (auto simp: DesktopNotifierBase_init_def deque_init_def deque_ok_def
           split: option.splits if_splits)

lemma deque_ok_send:
  "deque_ok (current_notifications_deque s) \<Longrightarrow>
   deque_ok (current_notifications_deque (snd (send outcome n s)))"
  by (auto simp: notifier_defs deque_ok_def Let_def
           split: option.splits list.splits send_outcome.splits)

lemma deque_ok_forget:
  "deque_ok (current_notifications_deque s) \<Longrightarrow>
   deque_ok (current_notifications_deque (snd (clear_notification_from_cache n s)))"
  by (auto simp: notifier_defs deque_ok_def Let_def length_remove1 split: option.splits)

lemma deque_ok_clear:
  "deque_ok (current_notifications_deque s) \<Longrightarrow>
   deque_ok (current_notifications_deque (snd (clear outcome n s)))"
  by (auto simp: notifier_defs deque_ok_def Let_def length_remove1
           split: option.splits clear_outcome.splits)

lemma deque_ok_clear_all:
  "deque_ok (current_notifications_deque s) \<Longrightarrow>
   deque_ok (current_notifications_deque (snd (clear_all outcome s)))"
  by (auto simp: notifier_defs deque_ok_def Let_def split: option.splits clear_outcome.splits)

subsection \<open>What forgetting does to each component\<close>

lemma forget_returns: "fst (clear_notification_from_cache n s) = Inr ()"
  by (simp add: notifier_defs split: option.splits)

lemma forget_cache:
  "current_notifications (snd (clear_notification_from_cache n s))
     = remove1 n (current_notifications s)"
  by (simp add: notifier_defs remove1_idem split: option.splits)

lemma forget_index:
  "notification_for_nid (snd (clear_notification_from_cache n s))
     = (if identifier (heap s n) \<noteq> ''''
        then (notification_for_nid s)(identifier (heap s n) := None)
        else notification_for_nid s)"
  by (auto simp: notifier_defs split: option.splits)

lemma forget_heap: "heap (snd (clear_notification_from_cache n s)) = heap s"
  by (simp add: notifier_defs split: option.splits)

lemma count_le_1_remove1: "count_list xs x \<le> 1 \<Longrightarrow> x \<notin> set (remove1 x xs)"
  by (induction xs) (auto simp: count_list_0_iff split: if_splits)

lemma count_tl_snoc: "x \<notin> set xs \<Longrightarrow> count_list (tl (xs @ [x])) x \<le> Suc 0"
  by (cases xs) (auto simp: count_list_0_iff)

subsection \<open>Sequences of deliveries\<close>

text \<open>Keeping the last \<open>N\<close> items of a list and then of its extension keeps the last \<open>N\<close>.\<close>

lemma drop_window_app:
  "drop (length (drop (length A - N) A @ R) - N) (drop (length A - N) A @ R)
     = drop (length (A @ R) - N) (A @ R)"
proof (cases "length A \<le> N")
  case True
  then show ?thesis by simp
next
  case False
  then have "length (drop (length A - N) A) = N" by simp
  then have "length (drop (length A - N) A @ R) - N = length R" by simp
  moreover have "length (A @ R) - N = (length A - N) + length R" using False by simp
  ultimately show ?thesis by (simp add: add.commute flip: drop_drop)
qed

lemma send_ok_bounded_step:
  assumes "0 < N" and "notification_limit s = Some (int N)"
    and "maxlen (current_notifications_deque s) = Some N"
    and "length (current_notifications s) \<le> N"
  shows "current_notifications (snd (send (Send_ok a) n s))
           = drop (length (current_notifications s @ [n]) - N) (current_notifications s @ [n])
         \<and> notification_limit (snd (send (Send_ok a) n s)) = Some (int N)
         \<and> maxlen (current_notifications_deque (snd (send (Send_ok a) n s))) = Some N"
  using assms
  by (auto simp: notifier_defs Let_def split: option.splits list.splits)

lemma sends_ok_bounded:
  assumes "0 < N" and "notification_limit s = Some (int N)"
    and "maxlen (current_notifications_deque s) = Some N"
    and "length (current_notifications s) \<le> N"
    and "list_all (\<lambda>c. is_Send_ok (snd c)) calls"
  shows "current_notifications (sends calls s)
           = drop (length (current_notifications s @ map fst calls) - N)
               (current_notifications s @ map fst calls)"
  using assms
proof (induction calls arbitrary: s)
  case Nil
  then show ?case by simp
next
  case (Cons c rest)
  obtain n outcome where c: "c = (n, outcome)" by (cases c)
  from Cons.prems(5) c obtain a where out: "outcome = Send_ok a"
    by (cases outcome) auto
  let ?s1 = "snd (send (Send_ok a) n s)"
  let ?A = "current_notifications s @ [n]"
  from send_ok_bounded_step [OF Cons.prems(1-4), of a n]
  have step: "current_notifications ?s1 = drop (length ?A - N) ?A"
    and lim: "notification_limit ?s1 = Some (int N)"
    and ml: "maxlen (current_notifications_deque ?s1) = Some N"
    by simp_all
  have len: "length (current_notifications ?s1) \<le> N"
    using Cons.prems(1) by (simp add: step)
  have rest: "list_all (\<lambda>c. is_Send_ok (snd c)) rest" using Cons.prems(5) by simp
  have "current_notifications (sends (c # rest) s) = current_notifications (sends rest ?s1)"
    by (simp add: c out)
  also have "\<dots> = drop (length (current_notifications ?s1 @ map fst rest) - N)
                      (current_notifications ?s1 @ map fst rest)"
    by (rule Cons.IH [OF Cons.prems(1) lim ml len rest])
  also have "\<dots> = drop (length (?A @ map fst rest) - N) (?A @ map fst rest)"
    unfolding step by (rule drop_window_app)
  finally show ?case by (simp add: c)
qed

lemma send_unbounded_step:
  assumes "notification_limit s = None" and "maxlen (current_notifications_deque s) = None"
  shows "current_notifications (snd (send outcome n s))
           = current_notifications s @ (if is_Send_ok outcome then [n] else [])
         \<and> notification_limit (snd (send outcome n s)) = None
         \<and> maxlen (current_notifications_deque (snd (send outcome n s))) = None"
  using assms
  by (cases outcome) (auto simp: notifier_defs Let_def split: option.splits)

lemma sends_unbounded:
  assumes "notification_limit s = None" and "maxlen (current_notifications_deque s) = None"
  shows "current_notifications (sends calls s) = current_notifications s @ delivered calls"
  using assms
proof (induction calls arbitrary: s)
  case Nil
  then show ?case by (simp add: delivered_def)
next
  case (Cons c rest)
  obtain n outcome where c: "c = (n, outcome)" by (cases c)
  from send_unbounded_step [OF Cons.prems, of outcome n] Cons.IH [of "snd (send outcome n s)"]
  show ?case by (simp add: c delivered_def)
qed

section \<open>The identifier index and the cache\<close>

text \<open>
  C1. The index and the cache do not stay in correspondence across an eviction. With
  \<open>notification_limit = 1\<close>, after notification 0 was delivered under the identifier \<open>a\<close>
  and notification 1 under \<open>b\<close>, the cache holds notification 1 only, while the index still
  maps \<open>a\<close> to notification 0: \<open>send\<close> takes the evicted notification out of the deque and
  never out of \<open>_notification_for_nid\<close>.
\<close>

theorem eviction_leaves_identifier_indexed:
  "current_notifications evicted_one = [1]
   \<and> identifier (heap evicted_one 0) = ''a''
   \<and> notification_for_nid evicted_one ''a'' = Some 0
   \<and> 0 \<notin> set (current_notifications evicted_one)"
  by (simp add: evicted_one_def init_defs notifier_defs)

section \<open>Failed delivery\<close>

text \<open>
  C2, as stated, fails: with \<open>notification_limit = 1\<close> and notification 0 in the cache, a
  \<open>SystemExit\<close> raised by \<open>_send\<close> for notification 1 is not caught by \<open>except Exception\<close>;
  it leaves \<open>send\<close>, and the evicted notification 0 is not put back, so the cache is empty
  after the call.
\<close>

theorem send_SystemExit_loses_evicted:
  "current_notifications one_shown = [0]
   \<and> fst (send (Send_raises SystemExit) 1 one_shown) = Inl SystemExit
   \<and> current_notifications (snd (send (Send_raises SystemExit) 1 one_shown)) = []"
  by (simp add: one_shown_def init_defs notifier_defs)

text \<open>
  C2, amended. If \<open>_send\<close> is called and raises an instance of \<open>Exception\<close>, then \<open>send\<close>
  returns, and afterwards the cache holds the same notifications in the same order as
  before the call and the index is unchanged: the evicted entry is put back at the head
  and the new notification is recorded in neither structure.
\<close>

theorem send_failure_restores_cache:
  assumes "deque_ok (current_notifications_deque s)"
    and "\<not> (notification_limit s = Some 0 \<and> current_notifications s = [])"
    and "is_Exception e"
  shows "fst (send (Send_raises e) n s) = Inr ()
         \<and> current_notifications (snd (send (Send_raises e) n s)) = current_notifications s
         \<and> notification_for_nid (snd (send (Send_raises e) n s)) = notification_for_nid s"
  using assms
  by (auto simp: notifier_defs deque_ok_def Let_def split: option.splits list.splits if_splits)

theorem send_failure_restores_cache_witness:
  "deque_ok (current_notifications_deque one_shown)
   \<and> notification_limit one_shown = Some 1
   \<and> is_Exception (BackendError ''no server'')
   \<and> current_notifications one_shown = [0]
   \<and> fst (send (Send_raises (BackendError ''no server'')) 1 one_shown) = Inr ()
   \<and> current_notifications (snd (send (Send_raises (BackendError ''no server'')) 1 one_shown)) = [0]
   \<and> notification_for_nid (snd (send (Send_raises (BackendError ''no server'')) 1 one_shown))
       = notification_for_nid one_shown"
proof -
  have ok: "deque_ok (current_notifications_deque one_shown)"
    by (simp add: one_shown_def init_defs notifier_defs deque_ok_def)
  have lim: "notification_limit one_shown = Some 1"
    by (simp add: one_shown_def init_defs notifier_defs)
  then have called: "\<not> (notification_limit one_shown = Some 0 \<and> current_notifications one_shown = [])"
    by simp
  have exc: "is_Exception (BackendError ''no server'')" by simp
  have before: "current_notifications one_shown = [0]"
    by (simp add: one_shown_def init_defs notifier_defs)
  from send_failure_restores_cache [OF ok called exc, of 1] ok lim before show ?thesis by simp
qed

text \<open>
  C3, as stated, fails: a \<open>KeyboardInterrupt\<close> raised by \<open>_send\<close> is not caught by
  \<open>except Exception\<close>; it reaches the caller of \<open>send\<close> and nothing is logged.
\<close>

theorem send_propagates_KeyboardInterrupt:
  "fst (send (Send_raises KeyboardInterrupt) 0 (started None)) = Inl KeyboardInterrupt
   \<and> logged (snd (send (Send_raises KeyboardInterrupt) 0 (started None))) = []"
  by (simp add: init_defs notifier_defs)

text \<open>
  C3, amended. Whenever \<open>_send\<close> is called (the eviction step did not pop from an empty
  deque) and raises an instance of \<open>Exception\<close>, \<open>send\<close> catches it, writes one
  warning record \<open>Notification failed\<close> and returns normally. An exception that derives
  from \<open>BaseException\<close> only is not caught: it reaches the caller and no record is written
  to the log.
\<close>

theorem send_catches_Exception_only:
  assumes "\<not> (notification_limit s = Some 0 \<and> current_notifications s = [])"
  shows "(is_Exception e \<longrightarrow>
            fst (send (Send_raises e) n s) = Inr ()
            \<and> logged (snd (send (Send_raises e) n s))
                = logged s @ [Log WARNING ''Notification failed'' (Some e)])
         \<and> (\<not> is_Exception e \<longrightarrow>
              fst (send (Send_raises e) n s) = Inl e
              \<and> logged (snd (send (Send_raises e) n s)) = logged s)"
  using assms
  by (auto simp: notifier_defs Let_def split: option.splits list.splits)

theorem send_catches_Exception_only_witness:
  "notification_limit one_shown = Some 1
   \<and> is_Exception (BackendError ''no server'')
   \<and> fst (send (Send_raises (BackendError ''no server'')) 1 one_shown) = Inr ()
   \<and> logged (snd (send (Send_raises (BackendError ''no server'')) 1 one_shown))
       = [Log WARNING ''Notification failed'' (Some (BackendError ''no server''))]
   \<and> fst (send (Send_raises SystemExit) 1 one_shown) = Inl SystemExit
   \<and> logged (snd (send (Send_raises SystemExit) 1 one_shown)) = []"
proof -
  have lim: "notification_limit one_shown = Some 1"
    by (simp add: one_shown_def init_defs notifier_defs)
  then have called: "\<not> (notification_limit one_shown = Some 0 \<and> current_notifications one_shown = [])"
    by simp
  have nolog: "logged one_shown = []"
    by (simp add: one_shown_def init_defs notifier_defs)
  from send_catches_Exception_only [OF called, of "BackendError ''no server''" 1]
       send_catches_Exception_only [OF called, of SystemExit 1] lim nolog
  show ?thesis by simp
qed

section \<open>clear and clear_all\<close>

text \<open>
  C4, as stated, fails: with notification 0 shown under the identifier \<open>a\<close>, a backend
  error in \<open>_clear\<close> leaves \<open>clear\<close> as that error, and the notification stays in the cache
  and in the index; a backend error in \<open>_clear_all\<close> leaves \<open>clear_all\<close> the same way with
  the cache untouched.
\<close>

theorem clear_failure_counterexample:
  "fst (clear (Clear_raises (BackendError ''no server'')) 0 one_shown)
     = Inl (BackendError ''no server'')
   \<and> current_notifications (snd (clear (Clear_raises (BackendError ''no server'')) 0 one_shown)) = [0]
   \<and> notification_for_nid (snd (clear (Clear_raises (BackendError ''no server'')) 0 one_shown)) ''a''
       = Some 0
   \<and> fst (clear_all (Clear_raises (BackendError ''no server'')) one_shown)
       = Inl (BackendError ''no server'')
   \<and> current_notifications (snd (clear_all (Clear_raises (BackendError ''no server'')) one_shown)) = [0]"
  by (simp add: one_shown_def init_defs notifier_defs)

text \<open>
  C4, amended. If \<open>_clear\<close> raises during \<open>clear\<close> (it is called only for a non-empty
  identifier) or \<open>_clear_all\<close> raises during \<open>clear_all\<close>, the exception reaches the caller
  and the cache and the index are left as they were. When the backend primitive returns,
  \<open>clear\<close> removes the first occurrence of the notification from the cache and its
  non-empty identifier from the index, and \<open>clear_all\<close> leaves both empty.
\<close>

theorem clear_propagates_backend_failure:
  "(identifier (heap s n) \<noteq> '''' \<longrightarrow>
      fst (clear (Clear_raises e) n s) = Inl e
      \<and> current_notifications (snd (clear (Clear_raises e) n s)) = current_notifications s
      \<and> notification_for_nid (snd (clear (Clear_raises e) n s)) = notification_for_nid s)
   \<and> fst (clear_all (Clear_raises e) s) = Inl e
   \<and> current_notifications (snd (clear_all (Clear_raises e) s)) = current_notifications s
   \<and> notification_for_nid (snd (clear_all (Clear_raises e) s)) = notification_for_nid s
   \<and> fst (clear Clear_ok n s) = Inr ()
   \<and> current_notifications (snd (clear Clear_ok n s)) = remove1 n (current_notifications s)
   \<and> notification_for_nid (snd (clear Clear_ok n s))
       = (if identifier (heap s n) \<noteq> ''''
          then (notification_for_nid s)(identifier (heap s n) := None)
          else notification_for_nid s)
   \<and> fst (clear_all Clear_ok s) = Inr ()
   \<and> current_notifications (snd (clear_all Clear_ok s)) = []
   \<and> notification_for_nid (snd (clear_all Clear_ok s)) = Map.empty"
proof -
  have a: "identifier (heap s n) \<noteq> '''' \<longrightarrow>
      fst (clear (Clear_raises e) n s) = Inl e
      \<and> current_notifications (snd (clear (Clear_raises e) n s)) = current_notifications s
      \<and> notification_for_nid (snd (clear (Clear_raises e) n s)) = notification_for_nid s"
    by (simp add: clear_def current_notifications_def)
  have b: "fst (clear_all (Clear_raises e) s) = Inl e
   \<and> current_notifications (snd (clear_all (Clear_raises e) s)) = current_notifications s
   \<and> notification_for_nid (snd (clear_all (Clear_raises e) s)) = notification_for_nid s"
    by (simp add: clear_all_def current_notifications_def)
  have c: "fst (clear Clear_ok n s) = Inr ()
   \<and> current_notifications (snd (clear Clear_ok n s)) = remove1 n (current_notifications s)
   \<and> notification_for_nid (snd (clear Clear_ok n s))
       = (if identifier (heap s n) \<noteq> ''''
          then (notification_for_nid s)(identifier (heap s n) := None)
          else notification_for_nid s)"
    by (simp add: clear_def Let_def forget_returns forget_cache forget_index)
       (simp add: current_notifications_def)
  have d: "fst (clear_all Clear_ok s) = Inr ()
   \<and> current_notifications (snd (clear_all Clear_ok s)) = []
   \<and> notification_for_nid (snd (clear_all Clear_ok s)) = Map.empty"
    by (simp add: clear_all_def current_notifications_def deque_clear_def)
  from a b c d show ?thesis by blast
qed

theorem clear_propagates_backend_failure_witness:
  "identifier (heap one_shown 0) = ''a''
   \<and> fst (clear (Clear_raises KeyError) 0 one_shown) = Inl KeyError
   \<and> current_notifications (snd (clear (Clear_raises KeyError) 0 one_shown)) = [0]
   \<and> current_notifications (snd (clear Clear_ok 0 one_shown)) = []
   \<and> notification_for_nid (snd (clear Clear_ok 0 one_shown)) ''a'' = None"
proof -
  have ident: "identifier (heap one_shown 0) = ''a''"
    by (simp add: one_shown_def init_defs notifier_defs)
  have cache: "current_notifications one_shown = [0]"
    by (simp add: one_shown_def init_defs notifier_defs)
  from clear_propagates_backend_failure [of one_shown 0 KeyError] ident cache
  show ?thesis by simp
qed

section \<open>The bounded cache\<close>

text \<open>
  C5. For a notifier constructed with a positive \<open>notification_limit\<close> \<open>N\<close>, after any
  sequence of \<open>send\<close> calls whose deliveries all succeed, the cache holds at most \<open>N\<close>
  notifications, and they are the last \<open>N\<close> notifications sent, in the order they were
  sent (all of them when fewer than \<open>N\<close> were sent).
\<close>

theorem sends_keep_most_recent:
  assumes "0 < N"
    and "DesktopNotifierBase_init a (Some (int N)) h = Inr s0"
    and "list_all (\<lambda>c. is_Send_ok (snd c)) calls"
  shows "current_notifications (sends calls s0) = drop (length calls - N) (map fst calls)
         \<and> length (current_notifications (sends calls s0)) \<le> N"
proof -
  from assms(2) have init: "notification_limit s0 = Some (int N)"
      "maxlen (current_notifications_deque s0) = Some N" "current_notifications s0 = []"
    by (auto simp: DesktopNotifierBase_init_def deque_init_def current_notifications_def)
  have "current_notifications (sends calls s0) = drop (length calls - N) (map fst calls)"
    using sends_ok_bounded [OF assms(1) init(1,2) _ assms(3)] init(3) by simp
  then show ?thesis using assms(1) by simp
qed

theorem sends_keep_most_recent_witness:
  "(0::nat) < 2
   \<and> DesktopNotifierBase_init None (Some (int 2)) fresh_heap = Inr (started (Some 2))
   \<and> list_all (\<lambda>c. is_Send_ok (snd c))
        [(0, Send_ok (Some ''a'')), (1, Send_ok (Some ''b'')), (2, Send_ok (Some ''c''))]
   \<and> current_notifications
        (sends [(0, Send_ok (Some ''a'')), (1, Send_ok (Some ''b'')), (2, Send_ok (Some ''c''))]
           (started (Some 2))) = [1, 2]"
proof -
  have pos: "(0::nat) < 2" by simp
  have init: "DesktopNotifierBase_init None (Some (int 2)) fresh_heap = Inr (started (Some 2))"
    by (simp add: init_defs)
  have ok: "list_all (\<lambda>c. is_Send_ok (snd c))
        [(0::nat, Send_ok (Some ''a'')), (1, Send_ok (Some ''b'')), (2, Send_ok (Some ''c''))]"
    by simp
  from sends_keep_most_recent [OF pos init ok] pos init ok show ?thesis by simp
qed

section \<open>Sending and then clearing\<close>

text \<open>
  C6, as stated, fails: a notification delivered twice is in the cache twice, and
  \<open>clear\<close> (with \<open>_clear\<close> succeeding) removes its first occurrence only, so it is still
  in \<open>current_notifications\<close> afterwards.
\<close>

theorem send_twice_clear_counterexample:
  "send (Send_ok (Some ''a'')) 0 (sends [(0, Send_ok (Some ''a''))] (started None))
     = (Inr (), shown_twice)
   \<and> fst (clear Clear_ok 0 shown_twice) = Inr ()
   \<and> current_notifications (snd (clear Clear_ok 0 shown_twice)) = [0]"
  by (simp add: shown_twice_def init_defs notifier_defs)

text \<open>
  C6, amended. A notification that is not in the cache, is then sent successfully and
  carries a non-empty identifier afterwards, and is then passed to \<open>clear\<close> with \<open>_clear\<close>
  succeeding, is absent from \<open>current_notifications\<close>, and looking its identifier up in
  the index gives nothing.
\<close>

theorem send_then_clear_removes:
  assumes "n \<notin> set (current_notifications s)"
    and "send (Send_ok a) n s = (Inr (), s1)"
    and "identifier (heap s1 n) \<noteq> ''''"
  shows "fst (clear Clear_ok n s1) = Inr ()
         \<and> n \<notin> set (current_notifications (snd (clear Clear_ok n s1)))
         \<and> notification_for_nid (snd (clear Clear_ok n s1))
             (identifier (heap (snd (clear Clear_ok n s1)) n)) = None"
proof -
  from assms(1,2) have once: "count_list (current_notifications s1) n \<le> 1"
    by (auto simp: notifier_defs Let_def count_list_0_iff count_tl_snoc
          split: option.splits list.splits if_splits)
  have cache: "current_notifications (snd (clear Clear_ok n s1))
                 = remove1 n (current_notifications s1)"
    using assms(3) by (simp add: clear_def Let_def forget_cache) (simp add: current_notifications_def)
  have idx: "notification_for_nid (snd (clear Clear_ok n s1))
               = (notification_for_nid s1)(identifier (heap s1 n) := None)"
    using assms(3) by (simp add: clear_def Let_def forget_index)
  have hp: "heap (snd (clear Clear_ok n s1)) = heap s1"
    using assms(3) by (simp add: clear_def Let_def forget_heap)
  have ret: "fst (clear Clear_ok n s1) = Inr ()"
    by (simp add: clear_def Let_def forget_returns)
  from once cache idx hp ret show ?thesis
    by (simp add: count_le_1_remove1)
qed

theorem send_then_clear_removes_witness:
  "0 \<notin> set (current_notifications (started (Some 1)))
   \<and> send (Send_ok (Some ''a'')) 0 (started (Some 1)) = (Inr (), one_shown)
   \<and> identifier (heap one_shown 0) = ''a''
   \<and> fst (clear Clear_ok 0 one_shown) = Inr ()
   \<and> 0 \<notin> set (current_notifications (snd (clear Clear_ok 0 one_shown)))
   \<and> notification_for_nid (snd (clear Clear_ok 0 one_shown)) ''a'' = None"
proof -
  have fresh: "0 \<notin> set (current_notifications (started (Some 1)))"
    by (simp add: init_defs notifier_defs)
  have sent: "send (Send_ok (Some ''a'')) 0 (started (Some 1)) = (Inr (), one_shown)"
    by (simp add: one_shown_def init_defs notifier_defs)
  have ident: "identifier (heap one_shown 0) = ''a''"
    by (simp add: one_shown_def init_defs notifier_defs)
  then have nonempty: "identifier (heap one_shown 0) \<noteq> ''''" by simp
  have hp: "heap (snd (clear Clear_ok 0 one_shown)) = heap one_shown"
    using nonempty by (simp add: clear_def Let_def forget_heap)
  from send_then_clear_removes [OF fresh sent nonempty] fresh sent ident hp
  show ?thesis by simp
qed

section \<open>Construction of a notification\<close>

text \<open>
  C7. Constructing a notification with the deprecated flag \<open>sound=True\<close> gives an object
  whose \<open>sound_file\<close> is \<open>DEFAULT_SOUND\<close>, whatever \<open>sound_file\<close> argument was passed, and
  issues exactly one \<open>DeprecationWarning\<close>.
\<close>

theorem Notification_init_deprecated_sound:
  "sound_file (snd (Notification_init t m u i b r c d a True th tmo sf)) = Some DEFAULT_SOUND
   \<and> fst (Notification_init t m u i b r c d a True th tmo sf) =
       [(DeprecationWarning, ''Use sound_file=DEFAULT_SOUND instead of sound=True.'')]"
  by (simp add: Notification_init_def)

section \<open>Forgetting a notification\<close>

text \<open>
  C8, as stated, fails: for a notification that is in the cache twice, forgetting it
  once leaves one occurrence and forgetting it again leaves none.
\<close>

theorem forget_twice_counterexample:
  "current_notifications (snd (clear_notification_from_cache 0 shown_twice)) = [0]
   \<and> current_notifications
        (snd (clear_notification_from_cache 0 (snd (clear_notification_from_cache 0 shown_twice))))
       = []
   \<and> clear_notification_from_cache 0 (snd (clear_notification_from_cache 0 shown_twice))
        \<noteq> clear_notification_from_cache 0 shown_twice"
proof -
  have one: "current_notifications (snd (clear_notification_from_cache 0 shown_twice)) = [0]"
    by (simp add: forget_cache) (simp add: shown_twice_def init_defs notifier_defs)
  have two: "current_notifications
        (snd (clear_notification_from_cache 0 (snd (clear_notification_from_cache 0 shown_twice))))
       = []"
    by (simp add: forget_cache) (simp add: shown_twice_def init_defs notifier_defs)
  from one two show ?thesis by auto
qed

text \<open>
  C8, amended. \<open>_clear_notification_from_cache\<close> never raises. For a notification that
  occurs at most once in the cache, applying it twice leaves the cache and the index as
  applying it once does. Applied to a notification that is not recorded (it is not in the
  cache, and its identifier is empty or not a key of the index), it changes nothing.
\<close>

theorem clear_notification_from_cache_idempotent:
  "fst (clear_notification_from_cache n s) = Inr ()
   \<and> (count_list (current_notifications s) n \<le> 1 \<longrightarrow>
        clear_notification_from_cache n (snd (clear_notification_from_cache n s))
          = clear_notification_from_cache n s)
   \<and> (n \<notin> set (current_notifications s)
        \<and> (identifier (heap s n) = '''' \<or> notification_for_nid s (identifier (heap s n)) = None) \<longrightarrow>
        clear_notification_from_cache n s = (Inr (), s))"
proof -
  have a: "fst (clear_notification_from_cache n s) = Inr ()" by (rule forget_returns)
  have b: "clear_notification_from_cache n (snd (clear_notification_from_cache n s))
          = clear_notification_from_cache n s" if "count_list (current_notifications s) n \<le> 1"
    using count_le_1_remove1 [OF that]
    by (auto simp: notifier_defs split: option.splits)
  have c: "clear_notification_from_cache n s = (Inr (), s)"
    if "n \<notin> set (current_notifications s)
        \<and> (identifier (heap s n) = '''' \<or> notification_for_nid s (identifier (heap s n)) = None)"
    using that by (auto simp: notifier_defs split: option.splits)
  from a b c show ?thesis by blast
qed

theorem clear_notification_from_cache_idempotent_witness:
  "count_list (current_notifications one_shown) 0 = 1
   \<and> clear_notification_from_cache 0 (snd (clear_notification_from_cache 0 one_shown))
       = clear_notification_from_cache 0 one_shown
   \<and> current_notifications (snd (clear_notification_from_cache 0 one_shown)) = []
   \<and> 1 \<notin> set (current_notifications one_shown)
   \<and> identifier (heap one_shown 1) = ''''
   \<and> clear_notification_from_cache 1 one_shown = (Inr (), one_shown)"
proof -
  have cache: "current_notifications one_shown = [0]"
    by (simp add: one_shown_def init_defs notifier_defs)
  have ident: "identifier (heap one_shown 1) = ''''"
    by (simp add: one_shown_def init_defs notifier_defs)
  have gone: "current_notifications (snd (clear_notification_from_cache 0 one_shown)) = []"
    by (simp add: forget_cache cache)
  from clear_notification_from_cache_idempotent [of 0 one_shown]
       clear_notification_from_cache_idempotent [of 1 one_shown] cache ident gone
  show ?thesis by simp
qed

section \<open>Construction of a notifier\<close>

text \<open>
  C9, as stated, fails: a notifier constructed without \<open>app_name\<close> has the name
  \<open>Python\<close>, not \<open>App\<close>.
\<close>

theorem default_app_name_counterexample:
  "DesktopNotifierBase_init None None fresh_heap = Inr (started None)
   \<and> app_name (started None) = ''Python''
   \<and> app_name (started None) \<noteq> ''App''"
  by (simp add: init_defs)

text \<open>
  C9, amended. A notifier constructed without \<open>app_name\<close> has the name \<open>Python\<close>. A
  notifier constructed without \<open>notification_limit\<close> never evicts: after any sequence of
  \<open>send\<close> calls its cache holds every notification whose delivery succeeded, in the order
  sent.
\<close>

theorem default_notifier:
  assumes "DesktopNotifierBase_init None lim h = Inr s0"
    and "DesktopNotifierBase_init a None h = Inr s1"
  shows "app_name s0 = ''Python''
         \<and> current_notifications (sends calls s1) = delivered calls"
proof -
  from assms(1) have "app_name s0 = ''Python''"
    by (auto simp: DesktopNotifierBase_init_def split: sum.splits)
  moreover from assms(2) have "notification_limit s1 = None"
      "maxlen (current_notifications_deque s1) = None" "current_notifications s1 = []"
    by (auto simp: DesktopNotifierBase_init_def deque_init_def current_notifications_def)
  then have "current_notifications (sends calls s1) = delivered calls"
    using sends_unbounded [of s1 calls] by simp
  ultimately show ?thesis by simp
qed

theorem default_notifier_witness:
  "DesktopNotifierBase_init None None fresh_heap = Inr (started None)
   \<and> app_name (started None) = ''Python''
   \<and> current_notifications
        (sends [(0, Send_ok (Some ''a'')), (1, Send_raises ValueError), (2, Send_ok None),
                (3, Send_ok (Some ''c''))] (started None)) = [0, 2, 3]"
proof -
  have init: "DesktopNotifierBase_init None None fresh_heap = Inr (started None)"
    by (simp add: init_defs)
  from default_notifier [OF init init,
      of "[(0, Send_ok (Some ''a'')), (1, Send_raises ValueError), (2, Send_ok None),
           (3, Send_ok (Some ''c''))]"] init
  show ?thesis by (simp add: delivered_def)
qed

text \<open>
  C10. For a notifier constructed with \<open>notification_limit = 0\<close>, every call of \<open>send\<close>,
  after any number of earlier calls, raises \<open>IndexError\<close> to the caller from the eviction
  step and leaves the state as it was: \<open>_send\<close> is never called and nothing is logged.
\<close>

theorem send_limit_zero_raises_IndexError:
  assumes "DesktopNotifierBase_init a (Some 0) h = Inr s0"
  shows "send outcome n (sends calls s0) = (Inl IndexError, sends calls s0)
         \<and> backend_calls (sends calls s0) = []
         \<and> logged (sends calls s0) = []"
proof -
  have one: "send out m s0 = (Inl IndexError, s0)" for out m
    using assms
    by (auto simp: DesktopNotifierBase_init_def deque_init_def send_def deque_popleft_def)
  have same: "sends calls s0 = s0"
    by (induction calls) (auto simp: one)
  have "backend_calls s0 = [] \<and> logged s0 = []"
    using assms by (auto simp: DesktopNotifierBase_init_def deque_init_def)
  with one same show ?thesis by simp
qed

theorem send_limit_zero_raises_IndexError_witness:
  "DesktopNotifierBase_init None (Some 0) fresh_heap = Inr (started (Some 0))
   \<and> fst (send (Send_ok (Some ''a'')) 0 (started (Some 0))) = Inl IndexError
   \<and> fst (send (Send_ok (Some ''b'')) 1
            (sends [(0, Send_ok (Some ''a''))] (started (Some 0)))) = Inl IndexError
   \<and> backend_calls (sends [(0, Send_ok (Some ''a''))] (started (Some 0))) = []"
proof -
  have init: "DesktopNotifierBase_init None (Some 0) fresh_heap = Inr (started (Some 0))"
    by (simp add: init_defs)
  from send_limit_zero_raises_IndexError [OF init, of "Send_ok (Some ''a'')" 0 "[]"]
       send_limit_zero_raises_IndexError [OF init, of "Send_ok (Some ''b'')" 1
          "[(0, Send_ok (Some ''a''))]"] init
  show ?thesis by simp
qed

end
